theory Spec2Isabelle
  imports Main "HOL-Library.Multiset" "HOL-Library.AList"
begin

section \<open>Data model of scheduler.ts\<close>

text \<open>
  \<^verbatim>\<open>TaskSchema\<close>: a task has a numeric id and parent id, a description, a priority
  out of three, a work ledger of summaries, its acceptance criteria and the completion
  flag. The ids are modelled as integers.
\<close>

datatype Priority = Low | Medium | High

record WorkEntry =
  work_summary :: string

record Task =
  id_task :: int
  parentId :: int
  description :: string
  priority :: Priority
  work_ledger :: "WorkEntry list"
  requirements_for_success :: string
  completed :: bool

text \<open>
  What can be thrown: \<open>SyntaxError\<close> by \<^verbatim>\<open>JSON.parse\<close> on the task file,
  \<open>NoOutput\<close> is \<^verbatim>\<open>new Error("No output from the model")\<close>, \<open>ServiceError\<close> is any
  exception of a call to a language-model service or of the validation of its answer,
  \<open>IOError\<close> is any rejection by the file system (no such entry, not a directory, is a
  directory, a file in the way); the program never looks at which one it was.
\<close>

datatype error = SyntaxError | NoOutput | ServiceError | IOError

section \<open>What the program takes from outside\<close>

text \<open>
  \<^verbatim>\<open>JSON.parse\<close> and \<^verbatim>\<open>JSON.stringify\<close> belong to the runtime, the language-model
  services are remote, and the order in which \<^verbatim>\<open>readdir\<close> lists a directory is the
  operating system's, so all of them are parameters of the model, collected in one
  record. \<open>JSON_parse\<close> gives \<open>None\<close> where \<^verbatim>\<open>JSON.parse\<close> throws. The cast
  \<^verbatim>\<open>as Task[]\<close> is not checked by the program; the model covers texts that denote an
  array of tasks and texts that are no JSON. \<open>readdir_order\<close> rearranges the names
  found into the order of the listing.
\<close>

record TextOutput =
  content :: string
  summary_of_work_done :: string

datatype TaskProcess =
    Subtasks "(string \<times> string \<times> Priority) list"
  | ExecutePrompt string
  | NotReady string

datatype Decision = Complete | Continue | Defer

record runtime =
  JSON_parse :: "string \<Rightarrow> Task list option"
  JSON_stringify :: "Task list \<Rightarrow> string"
  readdir_order :: "string list \<Rightarrow> string list"
  classifier :: "string \<Rightarrow> string \<Rightarrow> error + TaskProcess option"
  evaluator :: "string \<Rightarrow> string \<Rightarrow> error + Decision"
  relevance :: "string \<Rightarrow> string list \<Rightarrow> error + string list"
  saveLocation :: "string \<Rightarrow> string list \<Rightarrow> error + string"
  generator :: "string \<Rightarrow> string \<Rightarrow> string \<Rightarrow> error + TextOutput option"

section \<open>Strings and arrays of the runtime\<close>

text \<open>
  \<^verbatim>\<open>String.prototype.split\<close> on a one-character separator (the empty string splits
  into one empty part) and \<^verbatim>\<open>Array.prototype.join\<close>.
\<close>

fun str_split :: "char \<Rightarrow> string \<Rightarrow> string list" where
  "str_split sep [] = [[]]"
| "str_split sep (c # cs) =
     (if c = sep then [] # str_split sep cs
      else (case str_split sep cs of
              [] \<Rightarrow> [[c]]
            | part # parts \<Rightarrow> (c # part) # parts))"

fun arr_join :: "string \<Rightarrow> string list \<Rightarrow> string" where
  "arr_join sep [] = []"
| "arr_join sep [part] = part"
| "arr_join sep (part # parts) = part @ sep @ arr_join sep parts"

definition newline :: string where
  "newline = [CHR 0x0A]"

section \<open>The file system\<close>

text \<open>
  The file system is the runtime's. It is modelled as a tree without links: the
  entries, each a file with its text or a directory, keyed by the list of names that
  leads to them from the root, and the working directory of the process. The root is
  always a directory.
\<close>

datatype entry = FileEntry string | DirEntry

record filesystem =
  entries :: "(string list \<times> entry) list"
  cwd :: "string list"

definition entry_at :: "filesystem \<Rightarrow> string list \<Rightarrow> entry option" where
  "entry_at d p = (if p = [] then Some DirEntry else map_of (entries d) p)"

text \<open>
  Path resolution, one component at a time: every component is looked up in a
  directory that must exist; an empty component and \<^verbatim>\<open>.\<close> stay, \<^verbatim>\<open>..\<close> goes to the
  parent (the root is its own parent), a name goes to the entry of that name, which
  need not exist when it is the last. A path that starts with a slash is resolved from
  the root, any other from the working directory; the empty path is rejected. So
  \<^verbatim>\<open>./work/tasks.json\<close>, \<^verbatim>\<open>work//tasks.json\<close> and \<^verbatim>\<open>work/../work/tasks.json\<close>
  resolve to the same entry.
\<close>

fun walk :: "filesystem \<Rightarrow> string list \<Rightarrow> string list \<Rightarrow> error + string list" where
  "walk d cur [] = Inr cur"
| "walk d cur (seg # segs) =
     (if entry_at d cur \<noteq> Some DirEntry then Inl IOError
      else walk d (if seg = [] \<or> seg = ''.'' then cur
                   else if seg = ''..'' then butlast cur
                   else cur @ [seg]) segs)"

definition resolve :: "filesystem \<Rightarrow> string \<Rightarrow> error + string list" where
  "resolve d path =
     (case path of
        [] \<Rightarrow> Inl IOError
      | c # cs \<Rightarrow> walk d (if c = CHR ''/'' then [] else cwd d) (str_split CHR ''/'' path))"

text \<open>\<^verbatim>\<open>readFile\<close> rejects unless the path resolves to a file.\<close>

definition readFile :: "filesystem \<Rightarrow> string \<Rightarrow> error + string" where
  "readFile d path =
     (case resolve d path of
        Inl e \<Rightarrow> Inl e
      | Inr p \<Rightarrow>
          (case entry_at d p of
             Some (FileEntry text) \<Rightarrow> Inr text
           | Some DirEntry \<Rightarrow> Inl IOError
           | None \<Rightarrow> Inl IOError))"

text \<open>
  \<^verbatim>\<open>writeFile\<close> replaces the text of the file the path resolves to, or creates the
  file; it rejects, changing nothing, when the path does not resolve (a directory on the
  way is missing or is a file) and when it resolves to a directory.
\<close>

definition writeFile :: "string \<Rightarrow> string \<Rightarrow> filesystem \<Rightarrow> (error + unit) \<times> filesystem" where
  "writeFile path text d =
     (case resolve d path of
        Inl e \<Rightarrow> (Inl e, d)
      | Inr p \<Rightarrow>
          (case entry_at d p of
             Some DirEntry \<Rightarrow> (Inl IOError, d)
           | Some (FileEntry old) \<Rightarrow>
               (Inr (), d\<lparr>entries := AList.update p (FileEntry text) (entries d)\<rparr>)
           | None \<Rightarrow>
               (Inr (), d\<lparr>entries := AList.update p (FileEntry text) (entries d)\<rparr>)))"

text \<open>
  \<^verbatim>\<open>mkdir\<close> with \<^verbatim>\<open>recursive: true\<close> goes along the path and creates every directory
  that is missing; it rejects when a file is in the way, keeping the directories
  created until then. The directory it starts from must exist.
\<close>

fun mkdir_walk :: "filesystem \<Rightarrow> string list \<Rightarrow> string list \<Rightarrow> (error + unit) \<times> filesystem" where
  "mkdir_walk d cur [] = (Inr (), d)"
| "mkdir_walk d cur (seg # segs) =
     (if seg = [] \<or> seg = ''.'' then mkdir_walk d cur segs
      else if seg = ''..'' then mkdir_walk d (butlast cur) segs
      else (case entry_at d (cur @ [seg]) of
              Some (FileEntry text) \<Rightarrow> (Inl IOError, d)
            | Some DirEntry \<Rightarrow> mkdir_walk d (cur @ [seg]) segs
            | None \<Rightarrow>
                mkdir_walk (d\<lparr>entries := entries d @ [(cur @ [seg], DirEntry)]\<rparr>)
                  (cur @ [seg]) segs))"

definition mkdir_recursive :: "string \<Rightarrow> filesystem \<Rightarrow> (error + unit) \<times> filesystem" where
  "mkdir_recursive path d =
     (case path of
        [] \<Rightarrow> (Inl IOError, d)
      | c # cs \<Rightarrow>
          (let start = (if c = CHR ''/'' then [] else cwd d)
           in if entry_at d start \<noteq> Some DirEntry then (Inl IOError, d)
              else mkdir_walk d start (str_split CHR ''/'' path)))"

text \<open>
  \<^verbatim>\<open>readdir(dir, { recursive: true })\<close> rejects unless the path resolves to a
  directory; it lists the paths, relative to the directory, of all entries below it,
  files and directories alike, in the order the parameter \<open>readdir_order\<close> gives them.
\<close>

definition below :: "filesystem \<Rightarrow> string list \<Rightarrow> string list \<Rightarrow> bool" where
  "below d p k \<longleftrightarrow>
     length p < length k \<and> take (length p) k = p \<and>
     list_all (\<lambda>n. entry_at d (take n k) = Some DirEntry) [length p..<length k]"

definition readdir_recursive :: "runtime \<Rightarrow> filesystem \<Rightarrow> string \<Rightarrow> error + string list" where
  "readdir_recursive rt d dir =
     (case resolve d dir of
        Inl e \<Rightarrow> Inl e
      | Inr p \<Rightarrow>
          (if entry_at d p \<noteq> Some DirEntry then Inl IOError
           else Inr (readdir_order rt
                  (map (\<lambda>(k, e). arr_join ''/'' (drop (length p) k))
                     (filter (\<lambda>(k, e). below d p k) (AList.clearjunk (entries d)))))))"

section \<open>The work directory\<close>

definition readWorkDirTree :: "runtime \<Rightarrow> filesystem \<Rightarrow> error + string list" where
  "readWorkDirTree rt d =
     (case readdir_recursive rt d ''./work'' of
        Inl e \<Rightarrow> Inl e
      | Inr workDir \<Rightarrow> Inr (filter (\<lambda>item. \<not> (CHR ''.'' \<in> set item)) workDir))"

text \<open>\<^verbatim>\<open>readWorkFile\<close>: the \<^verbatim>\<open>catch\<close> turns every rejection into \<^verbatim>\<open>undefined\<close>.\<close>

definition readWorkFile :: "filesystem \<Rightarrow> string \<Rightarrow> string option" where
  "readWorkFile d fileName =
     (case readFile d (''./work/'' @ fileName) of
        Inr file \<Rightarrow> Some file
      | Inl e \<Rightarrow> None)"

text \<open>\<^verbatim>\<open>writeWorkFile\<close>: a rejection by \<^verbatim>\<open>mkdir\<close> or \<^verbatim>\<open>writeFile\<close> goes to the caller.\<close>

definition writeWorkFile :: "string \<Rightarrow> string \<Rightarrow> filesystem \<Rightarrow> (error + unit) \<times> filesystem" where
  "writeWorkFile fileName text d =
     (case (if CHR ''/'' \<in> set fileName
            then (let dirPath = arr_join ''/'' (butlast (str_split CHR ''/'' fileName))
                  in mkdir_recursive (''./work/'' @ dirPath) d)
            else (Inr (), d)) of
        (Inl e, d1) \<Rightarrow> (Inl e, d1)
      | (Inr u, d1) \<Rightarrow>
          (let fileName1 = (if \<not> (CHR ''.'' \<in> set fileName) then fileName @ ''.md'' else fileName)
           in writeFile (''./work/'' @ fileName1) text d1))"

section \<open>The task file\<close>

text \<open>
  \<^verbatim>\<open>readTasks\<close>: \<^verbatim>\<open>if (tasks)\<close> is false for \<^verbatim>\<open>undefined\<close> and for the empty
  string; \<^verbatim>\<open>JSON.parse\<close> stands outside every \<^verbatim>\<open>try\<close>.
\<close>

definition readTasks :: "runtime \<Rightarrow> filesystem \<Rightarrow> error + Task list" where
  "readTasks rt d =
     (case readWorkFile d ''tasks.json'' of
        Some tasks \<Rightarrow>
          (if tasks \<noteq> [] then
             (case JSON_parse rt tasks of
                Some parsed \<Rightarrow> Inr parsed
              | None \<Rightarrow> Inl SyntaxError)
           else Inr [])
      | None \<Rightarrow> Inr [])"

definition writeTasks :: "runtime \<Rightarrow> Task list \<Rightarrow> filesystem \<Rightarrow> (error + unit) \<times> filesystem" where
  "writeTasks rt tasks d = writeWorkFile ''tasks.json'' (JSON_stringify rt tasks) d"

section \<open>Candidate selection\<close>

text \<open>\<^verbatim>\<open>Array.prototype.indexOf\<close>: the first position of the value, or \<open>-1\<close>.\<close>

fun indexOf :: "'a list \<Rightarrow> 'a \<Rightarrow> int" where
  "indexOf [] v = -1"
| "indexOf (x # xs) v =
     (if x = v then 0 else (let i = indexOf xs v in if i < 0 then -1 else i + 1))"

definition priorityOrder :: "Priority list" where
  "priorityOrder = [Low, Medium, High]"

definition compareTaskPriority :: "Task \<Rightarrow> Task \<Rightarrow> int" where
  "compareTaskPriority a b =
     indexOf priorityOrder (priority a) - indexOf priorityOrder (priority b)"

text \<open>
  \<^verbatim>\<open>Array.prototype.sort\<close> with a comparator is stable and puts \<open>a\<close> before \<open>b\<close>
  when the comparator is negative on \<open>(a, b)\<close>. It is modelled as a stable insertion
  sort: an element goes in front of the first element it does not compare greater to.
\<close>

fun insert_by :: "('a \<Rightarrow> 'a \<Rightarrow> int) \<Rightarrow> 'a \<Rightarrow> 'a list \<Rightarrow> 'a list" where
  "insert_by cmp x [] = [x]"
| "insert_by cmp x (y # ys) =
     (if cmp x y \<le> 0 then x # y # ys else y # insert_by cmp x ys)"

definition array_sort :: "('a \<Rightarrow> 'a \<Rightarrow> int) \<Rightarrow> 'a list \<Rightarrow> 'a list" where
  "array_sort cmp xs = foldr (insert_by cmp) xs []"

text \<open>The top of the stack is the last element of the array.\<close>

definition getTaskList :: "runtime \<Rightarrow> filesystem \<Rightarrow> int list \<Rightarrow> error + Task list" where
  "getTaskList rt d taskStack =
     (case readTasks rt d of
        Inl e \<Rightarrow> Inl e
      | Inr tasks \<Rightarrow>
          (if length taskStack > 0 then
             Inr (array_sort compareTaskPriority
                    (filter (\<lambda>task. completed task = False)
                       (filter (\<lambda>task. parentId task = last taskStack) tasks)))
           else
             Inr (array_sort compareTaskPriority
                    (filter (\<lambda>task. completed task = False) tasks))))"

section \<open>Process state and the services\<close>

text \<open>
  The process state: the file system, the global counter \<^verbatim>\<open>taskNum\<close>, and the
  requests sent to the services so far, oldest first. A request is recorded by the
  values interpolated into its prompt; the fixed wording of the prompts is left out.
  Every function that touches the state returns its result, or the error thrown,
  together with the state reached.
\<close>

datatype request =
    ClassifyRequest string string
  | EvaluateRequest string string
  | RelevanceRequest string "string list"
  | SaveLocationRequest string "string list"
  | GenerateRequest string string string

record world =
  fs :: filesystem
  taskNum :: nat
  sent :: "request list"

definition send :: "request \<Rightarrow> world \<Rightarrow> world" where
  "send r w = w\<lparr>sent := sent w @ [r]\<rparr>"

text \<open>
  \<^verbatim>\<open>taskNum++\<close>. The counter is a double that starts at 0 and is only incremented, so
  it is a natural number: below \<open>2^53\<close> the increment is exact, and at \<open>2^53\<close> the
  sum with 1 is rounded back to \<open>2^53\<close>, where the counter stays.
\<close>

definition increment :: "nat \<Rightarrow> nat" where
  "increment n = (if int n < 2 ^ 53 then n + 1 else n)"

text \<open>\<^verbatim>\<open>task.work_ledger.map((work) => work.work_summary).join("\n")\<close>\<close>

definition ledgerText :: "Task \<Rightarrow> string" where
  "ledgerText task = arr_join newline (map work_summary (work_ledger task))"

text \<open>
  \<^verbatim>\<open>preProcessTask\<close>: the classifier's parsed output, \<open>NoOutput\<close> when it is null.
  The output already has the shape of \<^verbatim>\<open>TaskProcessSchema\<close>; a rejection by the
  service or by the validation is the \<open>Inl\<close> of the parameter.
\<close>

definition preProcessTask :: "runtime \<Rightarrow> Task \<Rightarrow> world \<Rightarrow> (error + TaskProcess) \<times> world" where
  "preProcessTask rt task w =
     (let w1 = send (ClassifyRequest (description task) (ledgerText task)) w
      in case classifier rt (description task) (ledgerText task) of
           Inl e \<Rightarrow> (Inl e, w1)
         | Inr None \<Rightarrow> (Inl NoOutput, w1)
         | Inr (Some output) \<Rightarrow> (Inr output, w1))"

definition postProcessTask :: "runtime \<Rightarrow> Task \<Rightarrow> world \<Rightarrow> (error + Decision) \<times> world" where
  "postProcessTask rt task w =
     (let w1 = send (EvaluateRequest (description task) (ledgerText task)) w
      in case evaluator rt (description task) (ledgerText task) of
           Inl e \<Rightarrow> (Inl e, w1)
         | Inr decision \<Rightarrow> (Inr decision, w1))"

section \<open>Executing a prompt\<close>

text \<open>
  \<^verbatim>\<open>getContext\<close>: the files the relevance query names, those that cannot be read
  dropped, each as its name, a line break and its text, joined by blank lines.
\<close>

definition getContext :: "runtime \<Rightarrow> string \<Rightarrow> world \<Rightarrow> (error + string) \<times> world" where
  "getContext rt prompt w =
     (case readWorkDirTree rt (fs w) of
        Inl e \<Rightarrow> (Inl e, w)
      | Inr dirTree \<Rightarrow>
          (let w1 = send (RelevanceRequest prompt dirTree) w
           in case relevance rt prompt dirTree of
                Inl e \<Rightarrow> (Inl e, w1)
              | Inr relevantFiles \<Rightarrow>
                  (let fileContents = map (\<lambda>file. (file, readWorkFile (fs w1) file)) relevantFiles;
                       filteredFileContents = filter (\<lambda>(file, text). text \<noteq> None) fileContents
                   in (Inr (arr_join (newline @ newline)
                              (map (\<lambda>(file, text). file @ newline @ (case text of Some t \<Rightarrow> t | None \<Rightarrow> []))
                                 filteredFileContents)),
                       w1))))"

definition getTaskSaveLocation :: "runtime \<Rightarrow> string \<Rightarrow> world \<Rightarrow> (error + string) \<times> world" where
  "getTaskSaveLocation rt prompt w =
     (case readWorkDirTree rt (fs w) of
        Inl e \<Rightarrow> (Inl e, w)
      | Inr dirTree \<Rightarrow>
          (let w1 = send (SaveLocationRequest prompt dirTree) w
           in case saveLocation rt prompt dirTree of
                Inl e \<Rightarrow> (Inl e, w1)
              | Inr path \<Rightarrow> (Inr path, w1)))"

text \<open>
  \<^verbatim>\<open>executePrompt\<close>, in two parts. The first is the function up to the validated
  output of the generation: context, save location, generation; a null output throws.
  A rejection by the generation service, or by the validation of its output, is the
  \<open>Inl\<close> of the parameter. It gives the save location and the output.
\<close>

definition generateOutput ::
  "runtime \<Rightarrow> string \<Rightarrow> string \<Rightarrow> world \<Rightarrow> (error + string \<times> TextOutput) \<times> world" where
  "generateOutput rt prompt workSummary w =
     (case getContext rt prompt w of
        (Inl e, w1) \<Rightarrow> (Inl e, w1)
      | (Inr context, w1) \<Rightarrow>
          (case getTaskSaveLocation rt prompt w1 of
             (Inl e, w2) \<Rightarrow> (Inl e, w2)
           | (Inr outputPath, w2) \<Rightarrow>
               (let w3 = send (GenerateRequest context workSummary prompt) w2
                in case generator rt context workSummary prompt of
                     Inl e \<Rightarrow> (Inl e, w3)
                   | Inr None \<Rightarrow> (Inl NoOutput, w3)
                   | Inr (Some parsedOutput) \<Rightarrow> (Inr (outputPath, parsedOutput), w3))))"

text \<open>The second part writes the content to the save location and returns the summary.\<close>

definition executePrompt :: "runtime \<Rightarrow> string \<Rightarrow> string \<Rightarrow> world \<Rightarrow> (error + string) \<times> world" where
  "executePrompt rt prompt workSummary w =
     (case generateOutput rt prompt workSummary w of
        (Inl e, w3) \<Rightarrow> (Inl e, w3)
      | (Inr (outputPath, parsedOutput), w3) \<Rightarrow>
          (case writeWorkFile outputPath (content parsedOutput) (fs w3) of
             (Inl e, d) \<Rightarrow> (Inl e, w3\<lparr>fs := d\<rparr>)
           | (Inr u, d) \<Rightarrow> (Inr (summary_of_work_done parsedOutput), w3\<lparr>fs := d\<rparr>)))"

section \<open>The scheduling step\<close>

text \<open>
  The \<^verbatim>\<open>map\<close> of the subtasks branch: for each element the counter is incremented and
  the child takes the new value as its id. The second component is the counter afterwards.
\<close>

fun mapSubtasks :: "Task \<Rightarrow> (string \<times> string \<times> Priority) list \<Rightarrow> nat \<Rightarrow> Task list \<times> nat" where
  "mapSubtasks task [] n = ([], n)"
| "mapSubtasks task ((task_description, requirements, prio) # rest) n =
     (case mapSubtasks task rest (increment n) of
        (subtasks, n') \<Rightarrow>
          (\<lparr>id_task = int (increment n), parentId = id_task task, description = task_description,
            priority = prio, work_ledger = [], requirements_for_success = requirements,
            completed = False\<rparr> # subtasks, n'))"

text \<open>
  \<^verbatim>\<open>find\<close> gives the first task with the id, an object of the array just parsed;
  mutating it changes that element of the array and nothing else.
\<close>

fun update_first :: "('a \<Rightarrow> bool) \<Rightarrow> ('a \<Rightarrow> 'a) \<Rightarrow> 'a list \<Rightarrow> 'a list" where
  "update_first P f [] = []"
| "update_first P f (x # xs) = (if P x then f x # xs else x # update_first P f xs)"

text \<open>The block "update the task with the new work that was done" of \<^verbatim>\<open>processTask\<close>.\<close>

definition appendWork :: "runtime \<Rightarrow> Task \<Rightarrow> string \<Rightarrow> world \<Rightarrow> (error + unit) \<times> world" where
  "appendWork rt task output w =
     (case readTasks rt (fs w) of
        Inl e \<Rightarrow> (Inl e, w)
      | Inr currentTasks \<Rightarrow>
          (case find (\<lambda>t. id_task t = id_task task) currentTasks of
             Some updatedTask \<Rightarrow>
               (case writeTasks rt
                       (update_first (\<lambda>t. id_task t = id_task task)
                          (\<lambda>t. t\<lparr>work_ledger := work_ledger t @ [\<lparr>work_summary = output\<rparr>]\<rparr>)
                          currentTasks)
                       (fs w) of
                  (Inl e, d) \<Rightarrow> (Inl e, w\<lparr>fs := d\<rparr>)
                | (Inr u, d) \<Rightarrow> (Inr (), w\<lparr>fs := d\<rparr>))
           | None \<Rightarrow> (Inr (), w)))"

text \<open>The block "mark the task as completed" of \<^verbatim>\<open>processTask\<close>.\<close>

definition markCompleted :: "runtime \<Rightarrow> Task \<Rightarrow> world \<Rightarrow> (error + unit) \<times> world" where
  "markCompleted rt task w =
     (case readTasks rt (fs w) of
        Inl e \<Rightarrow> (Inl e, w)
      | Inr currentTasks \<Rightarrow>
          (case find (\<lambda>t. id_task t = id_task task) currentTasks of
             Some updatedTask \<Rightarrow>
               (case writeTasks rt
                       (update_first (\<lambda>t. id_task t = id_task task)
                          (\<lambda>t. t\<lparr>completed := True\<rparr>)
                          currentTasks)
                       (fs w) of
                  (Inl e, d) \<Rightarrow> (Inl e, w\<lparr>fs := d\<rparr>)
                | (Inr u, d) \<Rightarrow> (Inr (), w\<lparr>fs := d\<rparr>))
           | None \<Rightarrow> (Inr (), w)))"

text \<open>
  \<^verbatim>\<open>processTask\<close>. The result is the field \<^verbatim>\<open>next\<close> (true: advance, false: retry the
  same task), the stack afterwards, and the state. In the subtasks branch the push
  comes after the write, so a rejected write leaves the stack as it was. The task
  evaluated after an execution is the argument \<open>task\<close>, as in the source.
\<close>

definition processTask ::
  "runtime \<Rightarrow> Task \<Rightarrow> int list \<Rightarrow> world \<Rightarrow> (error + bool) \<times> int list \<times> world" where
  "processTask rt task taskStack w =
     (case preProcessTask rt task w of
        (Inl e, w1) \<Rightarrow> (Inl e, taskStack, w1)
      | (Inr (NotReady reason), w1) \<Rightarrow> (Inr True, taskStack, w1)
      | (Inr (Subtasks specs), w1) \<Rightarrow>
          (case mapSubtasks task specs (taskNum w1) of
             (subtasks, n) \<Rightarrow>
               (let w2 = w1\<lparr>taskNum := n\<rparr>
                in case readTasks rt (fs w2) of
                     Inl e \<Rightarrow> (Inl e, taskStack, w2)
                   | Inr currentTasks \<Rightarrow>
                       (case writeTasks rt (currentTasks @ subtasks) (fs w2) of
                          (Inl e, d) \<Rightarrow> (Inl e, taskStack, w2\<lparr>fs := d\<rparr>)
                        | (Inr u, d) \<Rightarrow>
                            (Inr True, taskStack @ [id_task task], w2\<lparr>fs := d\<rparr>))))
      | (Inr (ExecutePrompt prompt), w1) \<Rightarrow>
          (case executePrompt rt prompt (ledgerText task) w1 of
             (Inl e, w2) \<Rightarrow> (Inl e, taskStack, w2)
           | (Inr output, w2) \<Rightarrow>
               (case appendWork rt task output w2 of
                  (Inl e, w3) \<Rightarrow> (Inl e, taskStack, w3)
                | (Inr u, w3) \<Rightarrow>
                    (case postProcessTask rt task w3 of
                       (Inl e, w4) \<Rightarrow> (Inl e, taskStack, w4)
                     | (Inr Complete, w4) \<Rightarrow>
                         (case markCompleted rt task w4 of
                            (Inl e, w5) \<Rightarrow> (Inl e, taskStack, w5)
                          | (Inr u, w5) \<Rightarrow> (Inr True, taskStack, w5))
                     | (Inr Defer, w4) \<Rightarrow> (Inr True, taskStack, w4)
                     | (Inr Continue, w4) \<Rightarrow> (Inr False, taskStack, w4)))))"

section \<open>Notions for the statements\<close>

text \<open>
  The work directory exists: the working directory of the process and \<^verbatim>\<open>work\<close> in it
  are directories, as they are once \<^verbatim>\<open>createWorkDir\<close> has run. The entry of the task
  file is the one \<^verbatim>\<open>./work/tasks.json\<close> resolves to then.
\<close>

definition work_dir :: "filesystem \<Rightarrow> bool" where
  "work_dir d \<longleftrightarrow>
     entry_at d (cwd d) = Some DirEntry \<and> entry_at d (cwd d @ [''work'']) = Some DirEntry"

definition tasks_key :: "filesystem \<Rightarrow> string list" where
  "tasks_key d = cwd d @ [''work'', ''tasks.json'']"

text \<open>
  The specification's words, for comparison with \<open>writeWorkFile\<close>: the name of a path
  is its last component, and the name has an extension when it contains a dot after
  its first character.
\<close>

definition spec_has_extension :: "string \<Rightarrow> bool" where
  "spec_has_extension path = (CHR ''.'' \<in> set (tl (last (str_split CHR ''/'' path))))"

section \<open>Concrete runs\<close>

text \<open>
  For runs on concrete inputs: a printer of task lists as JSON text (without the layout
  whitespace of \<^verbatim>\<open>JSON.stringify(tasks, null, 2)\<close>, which \<^verbatim>\<open>JSON.parse\<close> skips, and
  without escapes, the texts below needing none), and a parser that recognises the
  texts of a given list of task lists and rejects every other text, in particular the
  text \<^verbatim>\<open>{\<close>, which is no JSON.
\<close>

definition quoted :: "string \<Rightarrow> string" where
  "quoted s = CHR 0x22 # s @ [CHR 0x22]"

fun show_nat :: "nat \<Rightarrow> string" where
  "show_nat n =
     (if n < 10 then [''0123456789'' ! n]
      else show_nat (n div 10) @ [''0123456789'' ! (n mod 10)])"

definition show_int :: "int \<Rightarrow> string" where
  "show_int i = (if i < 0 then ''-'' @ show_nat (nat (- i)) else show_nat (nat i))"

definition show_priority :: "Priority \<Rightarrow> string" where
  "show_priority p = quoted (case p of Low \<Rightarrow> ''low'' | Medium \<Rightarrow> ''medium'' | High \<Rightarrow> ''high'')"

definition show_entry :: "WorkEntry \<Rightarrow> string" where
  "show_entry e = ''{'' @ quoted ''work_summary'' @ '':'' @ quoted (work_summary e) @ ''}''"

definition show_task :: "Task \<Rightarrow> string" where
  "show_task t =
     ''{'' @ quoted ''id'' @ '':'' @ show_int (id_task t) @ '','' @
     quoted ''parentId'' @ '':'' @ show_int (parentId t) @ '','' @
     quoted ''description'' @ '':'' @ quoted (description t) @ '','' @
     quoted ''priority'' @ '':'' @ show_priority (priority t) @ '','' @
     quoted ''work_ledger'' @ '':['' @ arr_join '','' (map show_entry (work_ledger t)) @ ''],'' @
     quoted ''requirements_for_success'' @ '':'' @ quoted (requirements_for_success t) @ '','' @
     quoted ''completed'' @ '':'' @ (if completed t then ''true'' else ''false'') @ ''}''"

definition json_text :: "Task list \<Rightarrow> string" where
  "json_text ts = ''['' @ arr_join '','' (map show_task ts) @ '']''"

definition parse_known :: "Task list list \<Rightarrow> string \<Rightarrow> Task list option" where
  "parse_known known text = find (\<lambda>ts. json_text ts = text) known"

text \<open>
  A runtime whose classifier, generator and evaluator answer as given, whose relevance
  query names no file, whose save location is \<^verbatim>\<open>notes/result\<close>, and whose directory
  listings come in the order given by the second argument.
\<close>

definition ordered_runtime ::
  "Task list list \<Rightarrow> (string list \<Rightarrow> string list) \<Rightarrow> TaskProcess \<Rightarrow> TextOutput option \<Rightarrow>
   (string \<Rightarrow> Decision) \<Rightarrow> runtime" where
  "ordered_runtime known order verdict output decide =
     \<lparr>JSON_parse = parse_known known,
      JSON_stringify = json_text,
      readdir_order = order,
      classifier = (\<lambda>d l. Inr (Some verdict)),
      evaluator = (\<lambda>d l. Inr (decide l)),
      relevance = (\<lambda>p tree. Inr []),
      saveLocation = (\<lambda>p tree. Inr ''notes/result''),
      generator = (\<lambda>c s p. Inr output)\<rparr>"

definition sample_runtime ::
  "Task list list \<Rightarrow> TaskProcess \<Rightarrow> TextOutput option \<Rightarrow> (string \<Rightarrow> Decision) \<Rightarrow> runtime" where
  "sample_runtime known verdict output decide =
     ordered_runtime known (\<lambda>names. names) verdict output decide"

definition sample_task :: "int \<Rightarrow> int \<Rightarrow> string \<Rightarrow> Priority \<Rightarrow> bool \<Rightarrow> Task" where
  "sample_task i p d prio done =
     \<lparr>id_task = i, parentId = p, description = d, priority = prio, work_ledger = [],
      requirements_for_success = ''Easy to follow'', completed = done\<rparr>"

definition root_task :: Task where
  "root_task = sample_task 1 0 ''Write a blog post'' High False"

definition sample_tasks :: "Task list" where
  "sample_tasks =
     [root_task,
      sample_task 2 1 ''Outline'' Low False,
      sample_task 3 1 ''Draft'' High False,
      sample_task 4 1 ''Review'' Medium False,
      sample_task 5 1 ''Title'' High True]"

text \<open>
  File systems of a process that runs in the directory \<^verbatim>\<open>/repo\<close>: with the work
  directory and more entries in it, and without the work directory.
\<close>

definition work_fs :: "(string list \<times> entry) list \<Rightarrow> filesystem" where
  "work_fs others =
     \<lparr>entries = [([''repo''], DirEntry), ([''repo'', ''work''], DirEntry)] @ others,
      cwd = [''repo'']\<rparr>"

definition store_fs :: "string \<Rightarrow> filesystem" where
  "store_fs text = work_fs [([''repo'', ''work'', ''tasks.json''], FileEntry text)]"

definition bare_fs :: filesystem where
  "bare_fs = \<lparr>entries = [([''repo''], DirEntry)], cwd = [''repo'']\<rparr>"

definition chapter_fs :: filesystem where
  "chapter_fs =
     work_fs [([''repo'', ''work'', ''chapters''], DirEntry),
              ([''repo'', ''work'', ''chapters'', ''ch1.md''], FileEntry ''Once upon a time''),
              ([''repo'', ''work'', ''tasks.json''], FileEntry ''[]'')]"

definition sample_world :: "string \<Rightarrow> nat \<Rightarrow> world" where
  "sample_world text n = \<lparr>fs = store_fs text, taskNum = n, sent = []\<rparr>"

text \<open>Inputs of the runs on \<open>processTask\<close>.\<close>

definition outline_task :: Task where
  "outline_task = sample_task 2 1 ''Outline'' Low False"

definition draft_spec :: "string \<times> string \<times> Priority" where
  "draft_spec = (''Draft the post'', ''Readable'', High)"

definition review_spec :: "string \<times> string \<times> Priority" where
  "review_spec = (''Review the post'', ''No typos'', Medium)"


definition draft_output :: TextOutput where
  "draft_output = \<lparr>content = ''A first draft'', summary_of_work_done = ''Wrote the draft''\<rparr>"

definition worked_root_task :: Task where
  "worked_root_task = root_task\<lparr>work_ledger := [\<lparr>work_summary = ''Wrote the draft''\<rparr>]\<rparr>"

text \<open>An evaluator that calls a task complete as soon as its ledger text is not empty.\<close>

definition complete_when_worked :: "string \<Rightarrow> Decision" where
  "complete_when_worked ledger = (if ledger = [] then Continue else Complete)"

section \<open>Sorting by priority\<close>

lemma indexOf_priorityOrder:
  "indexOf priorityOrder Low = 0"
  "indexOf priorityOrder Medium = 1"
  "indexOf priorityOrder High = 2"
  by (simp_all add: priorityOrder_def)

lemma indexOf_priorityOrder_inj:
  "indexOf priorityOrder p = indexOf priorityOrder q \<longleftrightarrow> p = q"
  by (cases p; cases q) (simp_all add: indexOf_priorityOrder)

lemma compareTaskPriority_le:
  "compareTaskPriority a b \<le> 0 \<longleftrightarrow>
     indexOf priorityOrder (priority a) \<le> indexOf priorityOrder (priority b)"
  by (simp add: compareTaskPriority_def)

lemma insert_by_insort_key:
  "insert_by compareTaskPriority x ys =
     insort_key (\<lambda>t. indexOf priorityOrder (priority t)) x ys"
  by (induction ys) (simp_all add: compareTaskPriority_le)

lemma array_sort_sort_key:
  "array_sort compareTaskPriority xs = sort_key (\<lambda>t. indexOf priorityOrder (priority t)) xs"
  by (induction xs) (simp_all add: array_sort_def insert_by_insort_key sort_key_def)

lemma mset_array_sort: "mset (array_sort compareTaskPriority xs) = mset xs"
  by (simp add: array_sort_sort_key)

lemma array_sort_stable:
  "filter (\<lambda>t. priority t = p) (array_sort compareTaskPriority xs) =
     filter (\<lambda>t. priority t = p) xs"
proof -
  have "filter (\<lambda>t. indexOf priorityOrder (priority t) = indexOf priorityOrder p)
          (sort_key (\<lambda>t. indexOf priorityOrder (priority t)) xs)
        = filter (\<lambda>t. indexOf priorityOrder (priority t) = indexOf priorityOrder p) xs"
    by (rule sort_key_stable)
  then show ?thesis
    by (simp add: array_sort_sort_key indexOf_priorityOrder_inj)
qed

lemma getTaskList_eq:
  assumes "readTasks rt disk = Inr tasks"
  shows "getTaskList rt disk taskStack =
     Inr (array_sort compareTaskPriority
            (filter (\<lambda>t. \<not> completed t \<and> (taskStack \<noteq> [] \<longrightarrow> parentId t = last taskStack)) tasks))"
  using assms
  by (auto simp: getTaskList_def intro!: arg_cong[where f="array_sort _"] filter_cong)

lemma sorted_priorities:
  assumes "sorted (map (\<lambda>t. indexOf priorityOrder (priority t)) r)"
      and "i < j" and "j < length r"
  shows "(priority (r ! j) = Low \<longrightarrow> priority (r ! i) = Low) \<and>
         (priority (r ! i) = High \<longrightarrow> priority (r ! j) = High)"
proof -
  have "map (\<lambda>t. indexOf priorityOrder (priority t)) r ! i
          \<le> map (\<lambda>t. indexOf priorityOrder (priority t)) r ! j"
    using assms by (simp add: sorted_iff_nth_mono)
  then have le: "indexOf priorityOrder (priority (r ! i)) \<le> indexOf priorityOrder (priority (r ! j))"
    using assms by simp
  show ?thesis
    using le by (cases "priority (r ! i)"; cases "priority (r ! j)") (simp_all add: indexOf_priorityOrder)
qed

lemma sample_store_read:
  "readTasks (sample_runtime [sample_tasks] (NotReady []) None (\<lambda>l. Continue))
     (store_fs (json_text sample_tasks)) = Inr sample_tasks"
  by code_simp

text \<open>
  Claim C1. Whatever the stack and the stored tasks, \<open>getTaskList\<close> returns exactly the
  stored tasks that are not completed and, when the stack is not empty, whose parent is
  the top of the stack, each as often as it is stored; no completed task is returned.
\<close>

theorem getTaskList_candidates:
  assumes "readTasks rt disk = Inr tasks"
  shows "\<exists>r. getTaskList rt disk taskStack = Inr r \<and>
           mset r = mset (filter (\<lambda>t. \<not> completed t \<and>
                                   (taskStack \<noteq> [] \<longrightarrow> parentId t = last taskStack)) tasks) \<and>
           (\<forall>t \<in> set r. \<not> completed t)"
proof -
  let ?c = "filter (\<lambda>t. \<not> completed t \<and> (taskStack \<noteq> [] \<longrightarrow> parentId t = last taskStack)) tasks"
  have m: "mset (array_sort compareTaskPriority ?c) = mset ?c"
    by (rule mset_array_sort)
  have "set (array_sort compareTaskPriority ?c) = set ?c"
    using m by (rule mset_eq_setD)
  then have "\<forall>t \<in> set (array_sort compareTaskPriority ?c). \<not> completed t"
    by simp
  with m getTaskList_eq[OF assms, of taskStack] show ?thesis
    by blast
qed

lemma sample_candidates:
  "filter (\<lambda>t. \<not> completed t \<and> (([1]::int list) \<noteq> [] \<longrightarrow> parentId t = last [1])) sample_tasks =
     [sample_task 2 1 ''Outline'' Low False, sample_task 3 1 ''Draft'' High False,
      sample_task 4 1 ''Review'' Medium False]"
  by code_simp

theorem getTaskList_candidates_witness:
  "readTasks (sample_runtime [sample_tasks] (NotReady []) None (\<lambda>l. Continue))
     (store_fs (json_text sample_tasks)) = Inr sample_tasks \<and>
   (\<exists>r. getTaskList (sample_runtime [sample_tasks] (NotReady []) None (\<lambda>l. Continue))
          (store_fs (json_text sample_tasks)) [1] = Inr r \<and>
        mset r = mset [sample_task 2 1 ''Outline'' Low False, sample_task 3 1 ''Draft'' High False,
                       sample_task 4 1 ''Review'' Medium False])"
  using getTaskList_candidates [OF sample_store_read, of "[1]"] sample_store_read
  unfolding sample_candidates
  by blast

text \<open>
  Claim C2, as the code has it. The candidates come back by priority ascending: the
  positions of the priorities in \<open>[Low, Medium, High]\<close> never decrease along the result,
  so whatever stands before a low task is low and whatever stands after a high task is
  high: every low task is before every medium one and every medium one before every
  high one. The tasks of one priority keep the order of the store.
\<close>

theorem getTaskList_ascending:
  assumes "readTasks rt disk = Inr tasks"
  shows "\<exists>r. getTaskList rt disk taskStack = Inr r \<and>
           sorted (map (\<lambda>t. indexOf priorityOrder (priority t)) r) \<and>
           (\<forall>i j. i < j \<longrightarrow> j < length r \<longrightarrow>
                (priority (r ! j) = Low \<longrightarrow> priority (r ! i) = Low) \<and>
                (priority (r ! i) = High \<longrightarrow> priority (r ! j) = High)) \<and>
           (\<forall>p. filter (\<lambda>t. priority t = p) r =
                filter (\<lambda>t. priority t = p)
                  (filter (\<lambda>t. \<not> completed t \<and>
                             (taskStack \<noteq> [] \<longrightarrow> parentId t = last taskStack)) tasks))"
proof -
  let ?c = "filter (\<lambda>t. \<not> completed t \<and> (taskStack \<noteq> [] \<longrightarrow> parentId t = last taskStack)) tasks"
  let ?r = "array_sort compareTaskPriority ?c"
  have run: "getTaskList rt disk taskStack = Inr ?r"
    using assms by (rule getTaskList_eq)
  have ordered: "sorted (map (\<lambda>t. indexOf priorityOrder (priority t)) ?r)"
    by (simp add: array_sort_sort_key)
  have pairs: "\<forall>i j. i < j \<longrightarrow> j < length ?r \<longrightarrow>
                (priority (?r ! j) = Low \<longrightarrow> priority (?r ! i) = Low) \<and>
                (priority (?r ! i) = High \<longrightarrow> priority (?r ! j) = High)"
    using sorted_priorities[OF ordered] by blast
  have stable: "\<forall>p. filter (\<lambda>t. priority t = p) ?r = filter (\<lambda>t. priority t = p) ?c"
    by (simp add: array_sort_stable)
  from run ordered pairs stable show ?thesis by blast
qed

theorem getTaskList_ascending_witness:
  "\<exists>r. getTaskList (sample_runtime [sample_tasks] (NotReady []) None (\<lambda>l. Continue))
          (store_fs (json_text sample_tasks)) [] = Inr r \<and>
        sorted (map (\<lambda>t. indexOf priorityOrder (priority t)) r) \<and>
        (\<forall>p. filter (\<lambda>t. priority t = p) r =
             filter (\<lambda>t. priority t = p) (filter (\<lambda>t. \<not> completed t) sample_tasks))"
  using getTaskList_ascending [OF sample_store_read, of "[]"]
  by auto

text \<open>
  The stored children of task 1 that are not completed have the priorities low, high,
  medium, in this order; they come back as low, medium, high.
\<close>

theorem getTaskList_descending_counterexample:
  "map priority (filter (\<lambda>t. \<not> completed t \<and> parentId t = 1) sample_tasks) = [Low, High, Medium] \<and>
   (case getTaskList (sample_runtime [sample_tasks] (NotReady []) None (\<lambda>l. Continue))
           (store_fs (json_text sample_tasks)) [1] of
      Inr r \<Rightarrow> map priority r
    | Inl e \<Rightarrow> []) = [Low, Medium, High]"
  by code_simp

section \<open>Reading and writing the task file\<close>

lemma str_split_tasks_path:
  "str_split CHR ''/'' ''./work/tasks.json'' = [''.'', ''work'', ''tasks.json'']"
  by simp

lemma resolve_tasks_path:
  "resolve d ''./work/tasks.json'' = (if work_dir d then Inr (tasks_key d) else Inl IOError)"
  by (simp add: resolve_def work_dir_def tasks_key_def)

lemma readWorkFile_tasks:
  "readWorkFile d ''tasks.json'' =
     (if work_dir d
      then (case entry_at d (tasks_key d) of Some (FileEntry text) \<Rightarrow> Some text | _ \<Rightarrow> None)
      else None)"
  by (simp add: readWorkFile_def readFile_def resolve_tasks_path split: option.splits entry.splits)

lemma writeTasks_result:
  "writeTasks rt tasks d =
     (if work_dir d \<and> entry_at d (tasks_key d) \<noteq> Some DirEntry
      then (Inr (), d\<lparr>entries := AList.update (tasks_key d) (FileEntry (JSON_stringify rt tasks)) (entries d)\<rparr>)
      else (Inl IOError, d))"
  by (simp add: writeTasks_def writeWorkFile_def writeFile_def resolve_tasks_path
           split: option.splits entry.splits)






text \<open>
  Claim C6, as the code has it. \<open>readTasks\<close> gives the empty list when the work
  directory is missing, when \<^verbatim>\<open>tasks.json\<close> in it is absent or is a directory, and when
  the file is empty; when the file has a text that \<open>JSON_parse\<close> rejects, the syntax
  error is thrown.
\<close>

theorem readTasks_absent_or_unparsable:
  "(\<not> work_dir d \<longrightarrow> readTasks rt d = Inr []) \<and>
   (entry_at d (tasks_key d) = None \<longrightarrow> readTasks rt d = Inr []) \<and>
   (entry_at d (tasks_key d) = Some DirEntry \<longrightarrow> readTasks rt d = Inr []) \<and>
   (entry_at d (tasks_key d) = Some (FileEntry []) \<longrightarrow> readTasks rt d = Inr []) \<and>
   (\<forall>text. work_dir d \<longrightarrow> entry_at d (tasks_key d) = Some (FileEntry text) \<longrightarrow> text \<noteq> [] \<longrightarrow>
        JSON_parse rt text = None \<longrightarrow> readTasks rt d = Inl SyntaxError)"
  by (simp add: readTasks_def readWorkFile_tasks)

lemma task_file_states:
  "\<not> work_dir bare_fs"
  "entry_at (work_fs []) (tasks_key (work_fs [])) = None"
  "entry_at (work_fs [([''repo'', ''work'', ''tasks.json''], DirEntry)])
     (tasks_key (work_fs [([''repo'', ''work'', ''tasks.json''], DirEntry)])) = Some DirEntry"
  "entry_at (store_fs []) (tasks_key (store_fs [])) = Some (FileEntry [])"
  "work_dir (store_fs ''{'')"
  "entry_at (store_fs ''{'') (tasks_key (store_fs ''{'')) = Some (FileEntry ''{'')"
  "JSON_parse (sample_runtime [] (NotReady []) None (\<lambda>l. Continue)) ''{'' = None"
  by code_simp+

theorem readTasks_absent_or_unparsable_witness:
  "readTasks (sample_runtime [] (NotReady []) None (\<lambda>l. Continue)) bare_fs = Inr [] \<and>
   readTasks (sample_runtime [] (NotReady []) None (\<lambda>l. Continue)) (work_fs []) = Inr [] \<and>
   readTasks (sample_runtime [] (NotReady []) None (\<lambda>l. Continue))
     (work_fs [([''repo'', ''work'', ''tasks.json''], DirEntry)]) = Inr [] \<and>
   readTasks (sample_runtime [] (NotReady []) None (\<lambda>l. Continue)) (store_fs []) = Inr [] \<and>
   readTasks (sample_runtime [] (NotReady []) None (\<lambda>l. Continue)) (store_fs ''{'') = Inl SyntaxError"
  using readTasks_absent_or_unparsable [of bare_fs "sample_runtime [] (NotReady []) None (\<lambda>l. Continue)"]
    readTasks_absent_or_unparsable [of "work_fs []" "sample_runtime [] (NotReady []) None (\<lambda>l. Continue)"]
    readTasks_absent_or_unparsable [of "work_fs [([''repo'', ''work'', ''tasks.json''], DirEntry)]"
      "sample_runtime [] (NotReady []) None (\<lambda>l. Continue)"]
    readTasks_absent_or_unparsable [of "store_fs []" "sample_runtime [] (NotReady []) None (\<lambda>l. Continue)"]
    readTasks_absent_or_unparsable [of "store_fs ''{''" "sample_runtime [] (NotReady []) None (\<lambda>l. Continue)"]
    task_file_states
  by simp

text \<open>The task file holds the text \<^verbatim>\<open>{\<close>, which is no JSON: reading the tasks throws.\<close>

theorem readTasks_unparsable_counterexample:
  "readWorkFile (store_fs ''{'') ''tasks.json'' = Some ''{'' \<and>
   JSON_parse (sample_runtime [sample_tasks] (NotReady []) None (\<lambda>l. Continue)) ''{'' = None \<and>
   readTasks (sample_runtime [sample_tasks] (NotReady []) None (\<lambda>l. Continue)) (store_fs ''{'')
     = Inl SyntaxError"
  by code_simp

section \<open>Listing the work directory\<close>

lemma readdir_recursive_order:
  assumes "readdir_order rt0 = (\<lambda>names. names)"
  shows "readdir_recursive rt d dir =
           (case readdir_recursive rt0 d dir of
              Inl e \<Rightarrow> Inl e
            | Inr names \<Rightarrow> Inr (readdir_order rt names))"
  by (simp add: readdir_recursive_def assms split: sum.splits)

lemma chapter_listing:
  "readdir_recursive (sample_runtime [] (NotReady []) None (\<lambda>l. Continue)) chapter_fs ''./work''
     = Inr [''chapters'', ''chapters/ch1.md'', ''tasks.json'']"
  by code_simp

lemma singleton_of_mset:
  assumes "mset xs = {#x#}"
  shows "xs = [x]"
proof -
  have "length xs = 1"
  proof -
    have "size (mset xs) = size {#x#}" using assms by simp
    then show ?thesis by simp
  qed
  then obtain y where "xs = [y]"
    by (cases xs) auto
  with assms show ?thesis by simp
qed

text \<open>
  In whatever order the three entries of the sample work directory are listed,
  \<open>readWorkDirTree\<close> returns the directory and drops both files.
\<close>

lemma readWorkDirTree_any_order:
  assumes "mset (readdir_order rt [''chapters'', ''chapters/ch1.md'', ''tasks.json''])
             = mset [''chapters'', ''chapters/ch1.md'', ''tasks.json'']"
  shows "readWorkDirTree rt chapter_fs = Inr [''chapters'']"
proof -
  let ?names = "[''chapters'', ''chapters/ch1.md'', ''tasks.json'']"
  have order: "readdir_order (sample_runtime [] (NotReady []) None (\<lambda>l. Continue)) = (\<lambda>names. names)"
    by (simp add: sample_runtime_def ordered_runtime_def)
  have listing: "readdir_recursive rt chapter_fs ''./work'' = Inr (readdir_order rt ?names)"
    by (subst readdir_recursive_order[OF order]) (simp add: chapter_listing)
  have "mset (filter (\<lambda>item. \<not> (CHR ''.'' \<in> set item)) (readdir_order rt ?names))
          = filter_mset (\<lambda>item. \<not> (CHR ''.'' \<in> set item)) (mset ?names)"
    using assms by (simp only: mset_filter)
  also have "\<dots> = {#''chapters''#}"
    by simp
  finally have "filter (\<lambda>item. \<not> (CHR ''.'' \<in> set item)) (readdir_order rt ?names) = [''chapters'']"
    by (rule singleton_of_mset)
  with listing show ?thesis
    by (simp add: readWorkDirTree_def)
qed

text \<open>
  Claim C7 at a work directory with the directory \<^verbatim>\<open>chapters\<close>, the file
  \<^verbatim>\<open>chapters/ch1.md\<close> in it and the task file: these three are what is below the work
  directory, and the listing of \<open>readWorkDirTree\<close> is the directory alone, without
  either file, whether the entries are listed in this order or in the opposite one.
\<close>

theorem readWorkDirTree_chapter_fs:
  "set (case readdir_recursive (sample_runtime [] (NotReady []) None (\<lambda>l. Continue))
               chapter_fs ''./work'' of Inr names \<Rightarrow> names | Inl e \<Rightarrow> [])
     = {''chapters'', ''chapters/ch1.md'', ''tasks.json''} \<and>
   entry_at chapter_fs [''repo'', ''work'', ''chapters''] = Some DirEntry \<and>
   entry_at chapter_fs [''repo'', ''work'', ''chapters'', ''ch1.md''] = Some (FileEntry ''Once upon a time'') \<and>
   readWorkDirTree (sample_runtime [] (NotReady []) None (\<lambda>l. Continue)) chapter_fs = Inr [''chapters''] \<and>
   readWorkDirTree (ordered_runtime [] rev (NotReady []) None (\<lambda>l. Continue)) chapter_fs = Inr [''chapters'']"
proof -
  have "readWorkDirTree (sample_runtime [] (NotReady []) None (\<lambda>l. Continue)) chapter_fs = Inr [''chapters'']"
    by code_simp
  moreover have "readWorkDirTree (ordered_runtime [] rev (NotReady []) None (\<lambda>l. Continue)) chapter_fs
                   = Inr [''chapters'']"
    by code_simp
  moreover have "entry_at chapter_fs [''repo'', ''work'', ''chapters''] = Some DirEntry"
    by code_simp
  moreover have "entry_at chapter_fs [''repo'', ''work'', ''chapters'', ''ch1.md'']
                   = Some (FileEntry ''Once upon a time'')"
    by code_simp
  ultimately show ?thesis
    by (simp add: chapter_listing)
qed

section \<open>Writing a file of the work directory\<close>

text \<open>
  A path with plain directory names and a name without extension gets \<^verbatim>\<open>.md\<close>
  appended; a second write to a path that has become a directory is rejected.
\<close>

lemma writeWorkFile_plain_directory:
  "\<not> spec_has_extension ''notes/plan'' \<and>
   (case writeWorkFile ''notes/plan'' ''text'' (work_fs []) of
      (r, d) \<Rightarrow> (r, readFile d ''./work/notes/plan.md'', readFile d ''./work/notes/plan''))
   = (Inr (), Inr ''text'', Inl IOError)"
  by code_simp

lemma writeWorkFile_onto_directory:
  "fst (writeWorkFile ''notes'' ''text'' (snd (writeWorkFile ''notes.d/plan'' ''text'' (work_fs []))))
     = Inr () \<and>
   fst (writeWorkFile ''notes.d'' ''text'' (snd (writeWorkFile ''notes.d/plan'' ''text'' (work_fs []))))
     = Inl IOError"
  by code_simp

text \<open>
  Claim C9 at the path \<^verbatim>\<open>v1.0/notes\<close>, whose name \<^verbatim>\<open>notes\<close> has no extension and
  whose directory has a dot in its name: the write is accepted, the text is at the path
  as it is, and nothing is at the path with \<^verbatim>\<open>.md\<close> appended.
\<close>

theorem writeWorkFile_dotted_directory:
  "\<not> spec_has_extension ''v1.0/notes'' \<and>
   (case writeWorkFile ''v1.0/notes'' ''text'' (work_fs []) of
      (r, d) \<Rightarrow> (r, readFile d ''./work/v1.0/notes'', readFile d ''./work/v1.0/notes.md''))
   = (Inr (), Inr ''text'', Inl IOError)"
  by code_simp

section \<open>The state across a scheduling step\<close>

lemma send_fields:
  "fs (send r w) = fs w" "taskNum (send r w) = taskNum w" "sent (send r w) = sent w @ [r]"
  by (simp_all add: send_def)

lemma preProcessTask_verdict:
  assumes "classifier rt (description task) (ledgerText task) = Inr (Some verdict)"
  shows "preProcessTask rt task w =
           (Inr verdict, send (ClassifyRequest (description task) (ledgerText task)) w)"
  using assms by (simp add: preProcessTask_def Let_def)

lemma preProcessTask_state:
  assumes "preProcessTask rt task w = (r, w1)"
  shows "w1 = send (ClassifyRequest (description task) (ledgerText task)) w"
  using assms by (auto simp: preProcessTask_def Let_def split: sum.splits option.splits)

lemma getContext_state:
  assumes "getContext rt prompt w = (r, w1)"
  shows "fs w1 = fs w \<and> taskNum w1 = taskNum w"
  using assms by (auto simp: getContext_def Let_def send_fields split: sum.splits)

lemma getTaskSaveLocation_state:
  assumes "getTaskSaveLocation rt prompt w = (r, w1)"
  shows "fs w1 = fs w \<and> taskNum w1 = taskNum w"
  using assms by (auto simp: getTaskSaveLocation_def Let_def send_fields split: sum.splits)

text \<open>Up to the output of the generation nothing is written.\<close>

lemma generateOutput_state:
  assumes "generateOutput rt prompt workSummary w = (r, w')"
  shows "fs w' = fs w \<and> taskNum w' = taskNum w"
proof (cases "getContext rt prompt w")
  case c: (Pair r1 w1)
  note c1 = getContext_state[OF c]
  show ?thesis
  proof (cases r1)
    case (Inl e1)
    with c assms c1 show ?thesis by (auto simp: generateOutput_def)
  next
    case found: (Inr ctx)
    show ?thesis
    proof (cases "getTaskSaveLocation rt prompt w1")
      case s: (Pair r2 w2)
      note s1 = getTaskSaveLocation_state[OF s]
      show ?thesis
      proof (cases r2)
        case (Inl e2)
        with c found s assms c1 s1 show ?thesis by (auto simp: generateOutput_def)
      next
        case (Inr outputPath)
        with c found s assms c1 s1 show ?thesis
          by (auto simp: generateOutput_def Let_def send_fields split: sum.splits option.splits)
      qed
    qed
  qed
qed

text \<open>When the generator gives no output, whatever the context, the execution throws.\<close>

lemma generateOutput_no_output:
  assumes "\<forall>text. generator rt text workSummary prompt = Inr None"
  shows "\<exists>e w'. generateOutput rt prompt workSummary w = (Inl e, w')"
proof (cases "getContext rt prompt w")
  case c: (Pair r1 w1)
  show ?thesis
  proof (cases r1)
    case (Inl e1)
    with c show ?thesis by (simp add: generateOutput_def)
  next
    case found: (Inr ctx)
    show ?thesis
    proof (cases "getTaskSaveLocation rt prompt w1")
      case s: (Pair r2 w2)
      show ?thesis
      proof (cases r2)
        case (Inl e2)
        with c found s show ?thesis by (simp add: generateOutput_def)
      next
        case (Inr outputPath)
        with c found s assms show ?thesis by (simp add: generateOutput_def Let_def)
      qed
    qed
  qed
qed

lemma executePrompt_generation_failure:
  assumes "generateOutput rt prompt workSummary w = (Inl e, w')"
  shows "executePrompt rt prompt workSummary w = (Inl e, w')"
  using assms by (simp add: executePrompt_def)

text \<open>The other way for an execution to throw is the rejection of the write.\<close>

lemma executePrompt_failure_cases:
  assumes "executePrompt rt prompt workSummary w = (Inl e, w')"
  shows "generateOutput rt prompt workSummary w = (Inl e, w') \<or>
         (\<exists>outputPath parsedOutput w3.
            generateOutput rt prompt workSummary w = (Inr (outputPath, parsedOutput), w3) \<and>
            fst (writeWorkFile outputPath (content parsedOutput) (fs w3)) = Inl e \<and>
            w' = w3\<lparr>fs := snd (writeWorkFile outputPath (content parsedOutput) (fs w3))\<rparr>)"
  using assms
  by (auto simp: executePrompt_def split: prod.splits sum.splits)

section \<open>The ids of the children\<close>











text \<open>At the last exact value of the counter two children get the same id.\<close>

lemma mapSubtasks_at_limit:
  "map id_task (fst (mapSubtasks root_task [draft_spec, review_spec] (2 ^ 53 - 1))) = [2 ^ 53, 2 ^ 53]"
  by (simp add: draft_spec_def review_spec_def increment_def)

section \<open>A task missing from the store\<close>

lemma find_no_task:
  assumes "\<forall>t \<in> set currentTasks. id_task t \<noteq> i"
  shows "find (\<lambda>t. id_task t = i) currentTasks = None"
  using assms by (simp add: find_None_iff)

lemma appendWork_missing:
  assumes "readTasks rt (fs w) = Inr currentTasks"
      and "\<forall>t \<in> set currentTasks. id_task t \<noteq> id_task task"
  shows "appendWork rt task output w = (Inr (), w)"
  using assms by (simp add: appendWork_def find_no_task)

lemma markCompleted_missing:
  assumes "readTasks rt (fs w) = Inr currentTasks"
      and "\<forall>t \<in> set currentTasks. id_task t \<noteq> id_task task"
  shows "markCompleted rt task w = (Inr (), w)"
  using assms by (simp add: markCompleted_def find_no_task)

section \<open>The scheduling step: not ready\<close>

lemma notReady_verdict:
  "classifier (sample_runtime [[root_task]] (NotReady ''blocked'') None (\<lambda>l. Continue))
     (description root_task) (ledgerText root_task) = Inr (Some (NotReady ''blocked''))"
  by (simp add: sample_runtime_def ordered_runtime_def)

text \<open>
  Claim C8. When the classifier's verdict on the task is not ready, \<open>processTask\<close>
  returns \<^verbatim>\<open>next: true\<close> (advance) with the stack as it was, and neither the file
  system, the task file in it included, nor the counter has changed.
\<close>

theorem processTask_notReady:
  assumes "classifier rt (description task) (ledgerText task) = Inr (Some (NotReady reason))"
  shows "\<exists>w'. processTask rt task taskStack w = (Inr True, taskStack, w') \<and>
              fs w' = fs w \<and> taskNum w' = taskNum w"
  using preProcessTask_verdict[OF assms, of w]
  by (simp add: processTask_def send_fields)

theorem processTask_notReady_witness:
  "\<exists>w'. processTask (sample_runtime [[root_task]] (NotReady ''blocked'') None (\<lambda>l. Continue))
           root_task [7] (sample_world (json_text [root_task]) 1) = (Inr True, [7], w') \<and>
        fs w' = store_fs (json_text [root_task]) \<and> taskNum w' = 1"
  using processTask_notReady [OF notReady_verdict, of "[7]" "sample_world (json_text [root_task]) 1"]
  by (simp add: sample_world_def)

section \<open>The scheduling step: failed execution\<close>

lemma no_output_run:
  "preProcessTask (sample_runtime [[root_task]] (ExecutePrompt ''go'') None (\<lambda>l. Complete))
     root_task (sample_world (json_text [root_task]) 1)
   = (Inr (ExecutePrompt ''go''),
      send (ClassifyRequest ''Write a blog post'' []) (sample_world (json_text [root_task]) 1))"
  "generateOutput (sample_runtime [[root_task]] (ExecutePrompt ''go'') None (\<lambda>l. Complete))
     ''go'' (ledgerText root_task)
     (send (ClassifyRequest ''Write a blog post'' []) (sample_world (json_text [root_task]) 1))
   = (Inl NoOutput,
      send (GenerateRequest [] [] ''go'')
        (send (SaveLocationRequest ''go'' [])
          (send (RelevanceRequest ''go'' [])
            (send (ClassifyRequest ''Write a blog post'' []) (sample_world (json_text [root_task]) 1)))))"
  by code_simp+

lemma root_store_read:
  "readTasks (sample_runtime [[root_task]] (ExecutePrompt ''go'') None (\<lambda>l. Complete))
     (store_fs (json_text [root_task])) = Inr [root_task]"
  by code_simp

text \<open>
  Claim C4. When the verdict is to execute and the execution fails before it has an
  output to write, as it does when the generator gives no output, \<open>executePrompt\<close>
  throws, \<open>processTask\<close> throws the same error, and the file system is what it was
  before the step: the stored tasks, their ledgers and completion flags are unchanged.
\<close>

theorem processTask_execution_failure:
  assumes "preProcessTask rt task w = (Inr (ExecutePrompt prompt), w1)"
      and "generateOutput rt prompt (ledgerText task) w1 = (Inl e, w2)"
  shows "executePrompt rt prompt (ledgerText task) w1 = (Inl e, w2) \<and>
         processTask rt task taskStack w = (Inl e, taskStack, w2) \<and>
         fs w2 = fs w \<and> taskNum w2 = taskNum w \<and>
         readTasks rt (fs w2) = readTasks rt (fs w)"
proof -
  have "w1 = send (ClassifyRequest (description task) (ledgerText task)) w"
    using assms(1) by (rule preProcessTask_state)
  then have "fs w1 = fs w" "taskNum w1 = taskNum w"
    by (simp_all add: send_fields)
  moreover have "fs w2 = fs w1 \<and> taskNum w2 = taskNum w1"
    using assms(2) by (rule generateOutput_state)
  moreover have exec: "executePrompt rt prompt (ledgerText task) w1 = (Inl e, w2)"
    using assms(2) by (rule executePrompt_generation_failure)
  moreover have "processTask rt task taskStack w = (Inl e, taskStack, w2)"
    using assms(1) exec by (simp add: processTask_def)
  ultimately show ?thesis by simp
qed

theorem processTask_execution_failure_witness:
  "processTask (sample_runtime [[root_task]] (ExecutePrompt ''go'') None (\<lambda>l. Complete))
     root_task [] (sample_world (json_text [root_task]) 1)
   = (Inl NoOutput, [],
      send (GenerateRequest [] [] ''go'')
        (send (SaveLocationRequest ''go'' [])
          (send (RelevanceRequest ''go'' [])
            (send (ClassifyRequest ''Write a blog post'' []) (sample_world (json_text [root_task]) 1))))) \<and>
   readTasks (sample_runtime [[root_task]] (ExecutePrompt ''go'') None (\<lambda>l. Complete))
     (fs (send (GenerateRequest [] [] ''go'')
        (send (SaveLocationRequest ''go'' [])
          (send (RelevanceRequest ''go'' [])
            (send (ClassifyRequest ''Write a blog post'' []) (sample_world (json_text [root_task]) 1))))))
   = Inr [root_task]"
  using processTask_execution_failure [OF no_output_run, of "[]"] root_store_read
  by (simp add: sample_world_def)

section \<open>The scheduling step: evaluation after an execution\<close>

text \<open>
  Claim C5 at the root task with an empty ledger, stored as the only task, an execution
  that succeeds with the summary \<^verbatim>\<open>Wrote the draft\<close>, and an evaluator that answers
  complete as soon as the ledger text it is given is not empty. The summary is in the
  ledger of the stored task afterwards, but the last request sent, the evaluator's,
  carries the empty ledger text, and the step answers \<^verbatim>\<open>next: false\<close>.
\<close>

theorem processTask_stale_evaluation:
  "ledgerText worked_root_task = ''Wrote the draft'' \<and>
   complete_when_worked (ledgerText worked_root_task) = Complete \<and>
   (case processTask
           (sample_runtime [[root_task], [worked_root_task]] (ExecutePrompt ''go'')
              (Some draft_output) complete_when_worked)
           root_task [] (sample_world (json_text [root_task]) 1) of
      (r, st, w') \<Rightarrow>
        (r, last (sent w'),
         readTasks (sample_runtime [[root_task], [worked_root_task]] (ExecutePrompt ''go'')
                      (Some draft_output) complete_when_worked) (fs w')))
   = (Inr False, EvaluateRequest ''Write a blog post'' [], Inr [worked_root_task])"
  by code_simp

section \<open>The scheduling step: decomposition\<close>


lemma writeTasks_rejected:
  assumes "\<not> work_dir d \<or> entry_at d (tasks_key d) = Some DirEntry"
  shows "writeTasks rt tasks d = (Inl IOError, d)"
  using assms by (auto simp: writeTasks_result)

text \<open>
  When the work directory is missing or \<^verbatim>\<open>tasks.json\<close> is a directory, the write of
  the subtasks branch is rejected: the step throws and the id is not pushed.
\<close>

lemma processTask_subtasks_write_rejected:
  assumes "classifier rt (description task) (ledgerText task) = Inr (Some (Subtasks specs))"
      and "\<not> work_dir (fs w) \<or> entry_at (fs w) (tasks_key (fs w)) = Some DirEntry"
  shows "\<exists>w'. processTask rt task taskStack w = (Inl IOError, taskStack, w') \<and> fs w' = fs w"
proof -
  let ?w1 = "send (ClassifyRequest (description task) (ledgerText task)) w"
  let ?w2 = "?w1\<lparr>taskNum := snd (mapSubtasks task specs (taskNum w))\<rparr>"
  have pre: "preProcessTask rt task w = (Inr (Subtasks specs), ?w1)"
    using assms(1) by (rule preProcessTask_verdict)
  have "readTasks rt (fs ?w2) = Inr []"
    using assms(2) by (auto simp: send_fields readTasks_def readWorkFile_tasks)
  moreover have "writeTasks rt ([] @ fst (mapSubtasks task specs (taskNum w))) (fs ?w2) = (Inl IOError, fs ?w2)"
    using assms(2) by (intro writeTasks_rejected) (simp add: send_fields)
  ultimately have "processTask rt task taskStack w = (Inl IOError, taskStack, ?w2\<lparr>fs := fs ?w2\<rparr>)"
    using pre by (auto simp: processTask_def send_fields Let_def split: prod.splits)
  then show ?thesis by (simp add: send_fields)
qed







section \<open>The scheduling step: a task missing from the store\<close>

lemma missing_task_run:
  "preProcessTask (sample_runtime [[outline_task]] (ExecutePrompt ''go'') (Some draft_output) (\<lambda>l. Complete))
     root_task (sample_world (json_text [outline_task]) 2)
   = (Inr (ExecutePrompt ''go''),
      send (ClassifyRequest ''Write a blog post'' []) (sample_world (json_text [outline_task]) 2))"
  "fst (executePrompt (sample_runtime [[outline_task]] (ExecutePrompt ''go'') (Some draft_output) (\<lambda>l. Complete))
     ''go'' (ledgerText root_task)
     (send (ClassifyRequest ''Write a blog post'' []) (sample_world (json_text [outline_task]) 2)))
   = Inr ''Wrote the draft''"
  "readTasks (sample_runtime [[outline_task]] (ExecutePrompt ''go'') (Some draft_output) (\<lambda>l. Complete))
     (fs (snd (executePrompt (sample_runtime [[outline_task]] (ExecutePrompt ''go'') (Some draft_output) (\<lambda>l. Complete))
     ''go'' (ledgerText root_task)
     (send (ClassifyRequest ''Write a blog post'' []) (sample_world (json_text [outline_task]) 2)))))
   = Inr [outline_task]"
  "\<forall>t \<in> set [outline_task]. id_task t \<noteq> id_task root_task"
  "evaluator (sample_runtime [[outline_task]] (ExecutePrompt ''go'') (Some draft_output) (\<lambda>l. Complete))
     (description root_task) (ledgerText root_task) = Inr Complete"
  by code_simp+

text \<open>
  Claim C10. When the execution has succeeded and the tasks read back from the store
  include none with the id of the task, \<open>processTask\<close> throws nothing and writes
  nothing more: whatever the evaluator decides, complete included, the file system
  stays as the execution left it, and the only change of the state is the evaluator's
  request; the answer is \<^verbatim>\<open>next: true\<close> unless the decision is to continue.
\<close>

theorem processTask_missing_task:
  assumes pre: "preProcessTask rt task w = (Inr (ExecutePrompt prompt), w1)"
      and exec: "executePrompt rt prompt (ledgerText task) w1 = (Inr output, w2)"
      and read: "readTasks rt (fs w2) = Inr currentTasks"
      and none: "\<forall>t \<in> set currentTasks. id_task t \<noteq> id_task task"
      and eval: "evaluator rt (description task) (ledgerText task) = Inr decision"
  shows "\<exists>w'. processTask rt task taskStack w = (Inr (decision \<noteq> Continue), taskStack, w') \<and>
              fs w' = fs w2 \<and>
              w' = send (EvaluateRequest (description task) (ledgerText task)) w2"
proof -
  let ?w3 = "send (EvaluateRequest (description task) (ledgerText task)) w2"
  have app: "appendWork rt task output w2 = (Inr (), w2)"
    using read none by (rule appendWork_missing)
  have post: "postProcessTask rt task w2 = (Inr decision, ?w3)"
    using eval by (simp add: postProcessTask_def Let_def)
  have "readTasks rt (fs ?w3) = Inr currentTasks"
    using read by (simp add: send_fields)
  then have mark: "markCompleted rt task ?w3 = (Inr (), ?w3)"
    using none by (rule markCompleted_missing)
  have "processTask rt task taskStack w = (Inr (decision \<noteq> Continue), taskStack, ?w3)"
    using pre exec app post mark by (cases decision) (simp_all add: processTask_def)
  then show ?thesis by (simp add: send_fields)
qed

theorem processTask_missing_task_witness:
  "\<exists>w'. processTask (sample_runtime [[outline_task]] (ExecutePrompt ''go'') (Some draft_output) (\<lambda>l. Complete))
          root_task [] (sample_world (json_text [outline_task]) 2) = (Inr True, [], w') \<and>
        readTasks (sample_runtime [[outline_task]] (ExecutePrompt ''go'') (Some draft_output) (\<lambda>l. Complete))
          (fs w') = Inr [outline_task]"
proof -
  let ?rt = "sample_runtime [[outline_task]] (ExecutePrompt ''go'') (Some draft_output) (\<lambda>l. Complete)"
  let ?w1 = "send (ClassifyRequest ''Write a blog post'' []) (sample_world (json_text [outline_task]) 2)"
  have exec: "executePrompt ?rt ''go'' (ledgerText root_task) ?w1 =
                (Inr ''Wrote the draft'', snd (executePrompt ?rt ''go'' (ledgerText root_task) ?w1))"
    using missing_task_run(2) by (metis prod.collapse)
  from processTask_missing_task [OF missing_task_run(1) exec missing_task_run(3,4,5), of "[]"]
    missing_task_run(3)
  show ?thesis by auto
qed

end
